theory Spec2Isabelle
  imports Complex_Main
begin

section \<open>The grid generator of \<^verbatim>\<open>src/App.tsx\<close>\<close>

text \<open>
  The component \<^verbatim>\<open>App\<close> keeps its state in six \<^verbatim>\<open>useState\<close> cells and changes it
  only inside event handlers. The model is explicit state passing: one record for the state
  of a render, one function per handler from the state the handler closes over to the state
  of the next render.

  Numbers. A \<^verbatim>\<open>number\<close> of the program is an IEEE double. The numbers of the state are
  integers: the configuration fields come from \<^verbatim>\<open>parseInt\<close>, the cell coordinates from the
  loop counters of \<^verbatim>\<open>renderGrid\<close>, the indices from \<^verbatim>\<open>Array.prototype.map\<close>. They are
  modelled as \<open>int\<close> (indices as \<open>nat\<close>). The model is the program on the safe integers,
  those below \<open>2 ^ 53\<close> in magnitude (\<open>safeInteger\<close> below): there every integer is a
  double, sums and differences that stay in the range are exact, and the number prints as
  its decimal numeral. Beyond that range the doubles of the program round, print other
  digits and, from \<open>10 ^ 21\<close>, print in exponent notation; the model does not follow them,
  and every statement about the text of the generators or about the value stored from a
  field carries the range as a hypothesis. The one product with a fraction,
  \<^verbatim>\<open>rowGap * 0.25\<close>, prints as its exact decimal expansion for \<open>rowGap\<close> below \<open>2 ^ 51\<close> in
  magnitude (\<open>quarterRange\<close> below). The id of an area prints the clock reading of
  \<^verbatim>\<open>Date.now()\<close>, the milliseconds since 1970, a safe integer in every execution.

  Strings are \<open>string\<close>: a \<open>char\<close> is a code unit below 256 of the strings of the program,
  so the model has the strings of such code units only. The line feed of the template
  literals is \<open>CHR 0x0A\<close>.
\<close>

subsection \<open>Data\<close>

record GridConfig =
  columns :: int
  rows :: int
  columnGap :: int
  rowGap :: int

text \<open>The field \<^verbatim>\<open>id\<close> of the source is \<open>id'\<close> here (\<open>id\<close> is the identity of HOL).\<close>

record GridArea =
  id' :: string
  rowStart :: int
  rowEnd :: int
  colStart :: int
  colEnd :: int
  color :: string

record cell =
  row :: int
  col :: int

definition AREA_COLORS :: "string list" where
  "AREA_COLORS =
    [''bg-gradient-to-br from-blue-500 to-blue-600'',
     ''bg-gradient-to-br from-emerald-500 to-emerald-600'',
     ''bg-gradient-to-br from-amber-500 to-amber-600'',
     ''bg-gradient-to-br from-rose-500 to-rose-600'',
     ''bg-gradient-to-br from-violet-500 to-violet-600'',
     ''bg-gradient-to-br from-pink-500 to-pink-600'',
     ''bg-gradient-to-br from-teal-500 to-teal-600'',
     ''bg-gradient-to-br from-orange-500 to-orange-600'']"

definition CSS_COLORS :: "string list" where
  "CSS_COLORS =
    [''linear-gradient(135deg, #3B82F6, #2563EB)'',
     ''linear-gradient(135deg, #10B981, #059669)'',
     ''linear-gradient(135deg, #F59E0B, #D97706)'',
     ''linear-gradient(135deg, #F43F5E, #E11D48)'',
     ''linear-gradient(135deg, #8B5CF6, #7C3AED)'',
     ''linear-gradient(135deg, #EC4899, #DB2777)'',
     ''linear-gradient(135deg, #14B8A6, #0D9488)'',
     ''linear-gradient(135deg, #F97316, #EA580C)'']"

text \<open>The state of one render: the current values of the \<^verbatim>\<open>useState\<close> cells.\<close>

record app_state =
  gridConfig :: GridConfig
  gridAreas :: "GridArea list"
  isDragging :: bool
  startCell :: "cell option"
  currentCell :: "cell option"
  showTailwind :: bool

definition init_state :: app_state where
  "init_state =
    \<lparr>gridConfig = \<lparr>columns = 4, rows = 3, columnGap = 4, rowGap = 4\<rparr>,
     gridAreas = [],
     isDragging = False,
     startCell = None,
     currentCell = None,
     showTailwind = True\<rparr>"

subsection \<open>Host functions: number to string, join, parseInt\<close>

text \<open>The safe integers (\<^verbatim>\<open>Number.isSafeInteger\<close>): the range on which the integers of the
  model are the doubles of the program.\<close>

definition safeInteger :: "int \<Rightarrow> bool" where
  "safeInteger n \<longleftrightarrow> \<bar>n\<bar> < 2 ^ 53"

text \<open>The decimal numeral of an integer: its decimal digits, with a minus sign when
  negative. On a safe integer this is the string that a template literal puts in for the
  number (\<^verbatim>\<open>Number::toString\<close>); on other integers it is not, and nothing below relies
  on it there.\<close>

fun natToString :: "nat \<Rightarrow> string" where
  "natToString n =
    (if n < 10 then [''0123456789'' ! n]
     else natToString (n div 10) @ [''0123456789'' ! (n mod 10)])"

declare natToString.simps [simp del]

definition numToString :: "int \<Rightarrow> string" where
  "numToString n = (if n < 0 then ''-'' @ natToString (nat (- n)) else natToString (nat n))"

text \<open>The exact decimal expansion of a quarter of an integer \<open>n\<close>: the quotient, then the
  fraction \<^verbatim>\<open>.25\<close>, \<^verbatim>\<open>.5\<close> or \<^verbatim>\<open>.75\<close> when \<open>n\<close> is not a multiple of four. The product
  \<^verbatim>\<open>n * 0.25\<close> of the program is exact, and a template literal prints the shortest
  decimal that reads back as the same double: this is the exact expansion as long as the
  doubles next to the product are less than 0.1 apart, that is for \<open>n\<close> below \<open>2 ^ 51\<close> in
  magnitude. From there on the program prints fewer digits (\<^verbatim>\<open>.8\<close> for \<^verbatim>\<open>.75\<close>), and
  nothing below relies on \<open>quarterToString\<close> there.\<close>

definition quarterRange :: "int \<Rightarrow> bool" where
  "quarterRange n \<longleftrightarrow> \<bar>n\<bar> < 2 ^ 51"

definition quarterToString :: "int \<Rightarrow> string" where
  "quarterToString n =
    (let m = nat \<bar>n\<bar>
     in (if n < 0 then ''-'' else '''') @ natToString (m div 4) @
        ['''', ''.25'', ''.5'', ''.75''] ! (m mod 4))"

abbreviation newline :: string where
  "newline \<equiv> [CHR 0x0A]"

text \<open>\<^verbatim>\<open>Array.prototype.join\<close> on an array of strings.\<close>

fun join :: "string \<Rightarrow> string list \<Rightarrow> string" where
  "join sep [] = []"
| "join sep [x] = x"
| "join sep (x # y # ys) = x @ sep @ join sep (y # ys)"

text \<open>
  \<^verbatim>\<open>parseInt(string)\<close> with no radix, after ECMAScript: leading white space is skipped, one
  sign is read, the prefix \<^verbatim>\<open>0x\<close> or \<^verbatim>\<open>0X\<close> selects radix 16 (radix 10 otherwise), and the
  longest run of digits of that radix is the value; no digit at all gives \<^verbatim>\<open>NaN\<close>, which
  is \<open>None\<close> here. The result of the program is the double nearest to the value of the
  digits: it is the integer of the model when that integer is safe, and nothing below relies
  on \<open>parseInt\<close> beyond, except on whether it reads a number at all and whether that number
  is zero, which the rounding does not change.

  The white space is tab, line feed, vertical tab, form feed, carriage return, space and
  the no-break space \<open>CHR 0xA0\<close>; the other white space and line terminators of
  ECMAScript are code units from 256 on (U+1680, U+2000 to U+200A, U+2028, U+2029, U+202F,
  U+205F, U+3000, U+FEFF).
\<close>

definition isWhiteSpace :: "char \<Rightarrow> bool" where
  "isWhiteSpace c \<longleftrightarrow>
    c \<in> set [CHR 0x09, CHR 0x0A, CHR 0x0B, CHR 0x0C, CHR 0x0D, CHR 0x20, CHR 0xA0]"

text \<open>The value of a character as a digit; 36 for a character that is a digit of no radix.\<close>

definition digitOf :: "char \<Rightarrow> nat" where
  "digitOf c =
    (let n = (of_char c :: nat)
     in if 48 \<le> n \<and> n \<le> 57 then n - 48
        else if 97 \<le> n \<and> n \<le> 122 then n - 87
        else if 65 \<le> n \<and> n \<le> 90 then n - 55
        else 36)"

definition stripSign :: "string \<Rightarrow> int \<times> string" where
  "stripSign S =
    (case S of
       [] \<Rightarrow> (1, S)
     | c # r \<Rightarrow> if c = CHR ''-'' then (- 1, r) else if c = CHR ''+'' then (1, r) else (1, S))"

definition stripPrefix :: "string \<Rightarrow> nat \<times> string" where
  "stripPrefix S =
    (case S of
       a # b # r \<Rightarrow>
         if a = CHR ''0'' \<and> (b = CHR ''x'' \<or> b = CHR ''X'') then (16, r) else (10, S)
     | _ \<Rightarrow> (10, S))"

definition parseInt :: "string \<Rightarrow> int option" where
  "parseInt str =
    (let (sign, S) = stripSign (dropWhile isWhiteSpace str);
         (R, S') = stripPrefix S;
         Z = takeWhile (\<lambda>c. digitOf c < R) S'
     in if Z = [] then None
        else Some (sign * int (foldl (\<lambda>acc c. acc * R + digitOf c) 0 Z)))"

text \<open>\<^verbatim>\<open>parseInt(v) || d\<close>: \<^verbatim>\<open>NaN\<close> and zero are falsy.\<close>

definition parseIntOr :: "string \<Rightarrow> int \<Rightarrow> int" where
  "parseIntOr v d = (case parseInt v of None \<Rightarrow> d | Some n \<Rightarrow> if n = 0 then d else n)"

subsection \<open>The code generators\<close>

definition generateTailwindCode :: "app_state \<Rightarrow> string" where
  \<open>generateTailwindCode s =
    (let parentClasses =
           join '' ''
             [''grid'',
              ''grid-cols-'' @ numToString (columns (gridConfig s)),
              ''grid-rows-'' @ numToString (rows (gridConfig s)),
              ''gap-'' @ numToString (columnGap (gridConfig s))];
         gridItems =
           map (\<lambda>area.
                 let classes =
                       join '' ''
                         [''row-start-'' @ numToString (rowStart area),
                          ''row-span-'' @ numToString (rowEnd area - rowStart area),
                          ''col-start-'' @ numToString (colStart area),
                          ''col-span-'' @ numToString (colEnd area - colStart area),
                          color area,
                          ''rounded-xl shadow-lg'']
                 in ''  <div class="'' @ classes @ ''"></div>'')
             (gridAreas s)
     in ''<div class="'' @ parentClasses @ ''">'' @ newline @ join newline gridItems @
        newline @ ''</div>'')\<close>

text \<open>\<^verbatim>\<open>generateCSSCode\<close> returns the object \<^verbatim>\<open>{css, html}\<close>: a pair here. The index that
  \<^verbatim>\<open>map\<close> passes to its callback is the position in the array, from 0.\<close>

definition generateCSSCode :: "app_state \<Rightarrow> string \<times> string" where
  \<open>generateCSSCode s =
    (let parentStyles =
           [''display: grid;'',
            ''grid-template-columns: repeat('' @ numToString (columns (gridConfig s)) @ '', 1fr);'',
            ''grid-template-rows: repeat('' @ numToString (rows (gridConfig s)) @ '', 1fr);'',
            ''gap: '' @ quarterToString (rowGap (gridConfig s)) @ ''rem;''];
         cssRules =
           join newline
             (map (\<lambda>(index, area).
                    newline @ ''.grid-area-'' @ natToString (index + 1) @ '' {'' @ newline @
                    ''  grid-row: '' @ numToString (rowStart area) @ '' / '' @
                      numToString (rowEnd area) @ '';'' @ newline @
                    ''  grid-column: '' @ numToString (colStart area) @ '' / '' @
                      numToString (colEnd area) @ '';'' @ newline @
                    ''  background: '' @ CSS_COLORS ! (index mod length CSS_COLORS) @ '';'' @
                      newline @
                    ''  border-radius: 0.75rem;'' @ newline @
                    ''  box-shadow: 0 10px 15px -3px rgb(0 0 0 / 0.1);'' @ newline @
                    ''}'')
               (enumerate 0 (gridAreas s)));
         htmlCode =
           join newline
             (map (\<lambda>(index, _). ''  <div class="grid-area-'' @ natToString (index + 1) @ ''"></div>'')
               (enumerate 0 (gridAreas s)))
     in (''.grid-container {'' @ newline @ ''  '' @ join (newline @ ''  '') parentStyles @
           newline @ ''}'' @ newline @ cssRules,
         ''<div class="grid-container">'' @ newline @ htmlCode @ newline @ ''</div>''))\<close>

subsection \<open>The selection handlers\<close>

definition handleMouseDown :: "int \<Rightarrow> int \<Rightarrow> app_state \<Rightarrow> app_state" where
  "handleMouseDown r c s =
    s\<lparr>isDragging := True,
      startCell := Some \<lparr>row = r, col = c\<rparr>,
      currentCell := Some \<lparr>row = r, col = c\<rparr>\<rparr>"

definition handleMouseEnter :: "int \<Rightarrow> int \<Rightarrow> app_state \<Rightarrow> app_state" where
  "handleMouseEnter r c s =
    (if isDragging s then s\<lparr>currentCell := Some \<lparr>row = r, col = c\<rparr>\<rparr> else s)"

text \<open>\<^verbatim>\<open>handleMouseUp\<close> reads the clock for the id of the new area: \<open>now\<close> is the value
  of \<^verbatim>\<open>Date.now()\<close>. An object is truthy and \<^verbatim>\<open>null\<close> is falsy, so the test
  \<^verbatim>\<open>isDragging && startCell && currentCell\<close> is the case distinction below.\<close>

definition handleMouseUp :: "int \<Rightarrow> app_state \<Rightarrow> app_state" where
  "handleMouseUp now s =
    (let s' =
       (case (isDragging s, startCell s, currentCell s) of
          (True, Some sc, Some cc) \<Rightarrow>
            s\<lparr>gridAreas :=
                gridAreas s @
                [\<lparr>id' = ''area-'' @ numToString now,
                  rowStart = min (row sc) (row cc),
                  rowEnd = max (row sc) (row cc) + 1,
                  colStart = min (col sc) (col cc),
                  colEnd = max (col sc) (col cc) + 1,
                  color = AREA_COLORS ! (length (gridAreas s) mod length AREA_COLORS)\<rparr>]\<rparr>
        | _ \<Rightarrow> s)
     in s'\<lparr>isDragging := False, startCell := None, currentCell := None\<rparr>)"

definition isInSelection :: "int \<Rightarrow> int \<Rightarrow> app_state \<Rightarrow> bool" where
  "isInSelection r c s =
    (case (isDragging s, startCell s, currentCell s) of
       (True, Some sc, Some cc) \<Rightarrow>
         r \<ge> min (row sc) (row cc) \<and> r \<le> max (row sc) (row cc) \<and>
         c \<ge> min (col sc) (col cc) \<and> c \<le> max (col sc) (col cc)
     | _ \<Rightarrow> False)"

text \<open>The predicate of the \<^verbatim>\<open>find\<close> in \<^verbatim>\<open>getGridAreaColor\<close>: the area covers the cell.\<close>

definition covers :: "GridArea \<Rightarrow> int \<Rightarrow> int \<Rightarrow> bool" where
  "covers area r c \<longleftrightarrow>
    r \<ge> rowStart area \<and> r < rowEnd area \<and> c \<ge> colStart area \<and> c < colEnd area"

definition getGridAreaColor :: "int \<Rightarrow> int \<Rightarrow> app_state \<Rightarrow> string" where
  "getGridAreaColor r c s =
    (case find (\<lambda>area. covers area r c) (gridAreas s) of
       None \<Rightarrow> ''''
     | Some area \<Rightarrow> color area)"

subsection \<open>The other handlers and the events of the page\<close>

text \<open>The \<^verbatim>\<open>onChange\<close> handlers of the four numeric fields, on the field's text \<open>v\<close>
  (\<^verbatim>\<open>e.target.value\<close>), the reset button and the syntax selector.\<close>

definition onChangeColumns :: "string \<Rightarrow> app_state \<Rightarrow> app_state" where
  "onChangeColumns v s = s\<lparr>gridConfig := (gridConfig s)\<lparr>columns := parseIntOr v 1\<rparr>\<rparr>"

definition onChangeRows :: "string \<Rightarrow> app_state \<Rightarrow> app_state" where
  "onChangeRows v s = s\<lparr>gridConfig := (gridConfig s)\<lparr>rows := parseIntOr v 1\<rparr>\<rparr>"

definition onChangeColumnGap :: "string \<Rightarrow> app_state \<Rightarrow> app_state" where
  "onChangeColumnGap v s = s\<lparr>gridConfig := (gridConfig s)\<lparr>columnGap := parseIntOr v 0\<rparr>\<rparr>"

definition onChangeRowGap :: "string \<Rightarrow> app_state \<Rightarrow> app_state" where
  "onChangeRowGap v s = s\<lparr>gridConfig := (gridConfig s)\<lparr>rowGap := parseIntOr v 0\<rparr>\<rparr>"

definition resetGridAreas :: "app_state \<Rightarrow> app_state" where
  "resetGridAreas s = s\<lparr>gridAreas := []\<rparr>"

definition onChangeSyntax :: "string \<Rightarrow> app_state \<Rightarrow> app_state" where
  "onChangeSyntax v s = s\<lparr>showTailwind := (v = ''tailwind'')\<rparr>"

text \<open>The copy button hands this text to \<^verbatim>\<open>navigator.clipboard.writeText\<close> and changes no
  state.\<close>

definition copyText :: "app_state \<Rightarrow> string" where
  "copyText s =
    (if showTailwind s then generateTailwindCode s
     else fst (generateCSSCode s) @ newline @ newline @ snd (generateCSSCode s))"

text \<open>The events of the page. The root element binds both \<^verbatim>\<open>onMouseUp\<close> and
  \<^verbatim>\<open>onMouseLeave\<close> to \<^verbatim>\<open>handleMouseUp\<close>.\<close>

datatype event =
    MouseDown int int
  | MouseEnter int int
  | MouseUp int
  | MouseLeave int
  | ChangeColumns string
  | ChangeRows string
  | ChangeColumnGap string
  | ChangeRowGap string
  | ResetClick
  | ChangeSyntax string
  | CopyClick

fun step :: "app_state \<Rightarrow> event \<Rightarrow> app_state" where
  "step s (MouseDown r c) = handleMouseDown r c s"
| "step s (MouseEnter r c) = handleMouseEnter r c s"
| "step s (MouseUp now) = handleMouseUp now s"
| "step s (MouseLeave now) = handleMouseUp now s"
| "step s (ChangeColumns v) = onChangeColumns v s"
| "step s (ChangeRows v) = onChangeRows v s"
| "step s (ChangeColumnGap v) = onChangeColumnGap v s"
| "step s (ChangeRowGap v) = onChangeRowGap v s"
| "step s ResetClick = resetGridAreas s"
| "step s (ChangeSyntax v) = onChangeSyntax v s"
| "step s CopyClick = s"

definition run :: "event list \<Rightarrow> app_state" where
  "run es = foldl step init_state es"

subsection \<open>Event sequences of complete gestures\<close>

text \<open>One gesture that commits: the button pressed on the start cell, the pointer moved to
  the current cell, the button released at clock reading \<open>now\<close>. \<open>commits\<close> is a
  sequence of such gestures, one after the other.\<close>

definition dragEvents :: "cell \<times> cell \<times> int \<Rightarrow> event list" where
  "dragEvents g =
    (case g of (sc, cc, now) \<Rightarrow>
       [MouseDown (row sc) (col sc), MouseEnter (row cc) (col cc), MouseUp now])"

definition commits :: "(cell \<times> cell \<times> int) list \<Rightarrow> event list" where
  "commits gs = concat (map dragEvents gs)"

text \<open>Nine gestures, for the cycle of the palette.\<close>

definition nine :: "(cell \<times> cell \<times> int) list" where
  "nine = map (\<lambda>n. (\<lparr>row = 1, col = 1\<rparr>, \<lparr>row = 2, col = 3\<rparr>, n)) [1, 2, 3, 4, 5, 6, 7, 8, 9]"

text \<open>Between a press and the release that follows it both cells are set; otherwise both
  are \<^verbatim>\<open>null\<close>.\<close>

definition gestureConsistent :: "app_state \<Rightarrow> bool" where
  "gestureConsistent s \<longleftrightarrow>
    (if isDragging s then startCell s \<noteq> None \<and> currentCell s \<noteq> None
     else startCell s = None \<and> currentCell s = None)"

text \<open>The colour of every area is the palette entry of its position in the registry.\<close>

definition positionColored :: "GridArea list \<Rightarrow> bool" where
  "positionColored as \<longleftrightarrow> (\<forall>N<length as. color (as ! N) = AREA_COLORS ! (N mod 8))"

subsection \<open>Lines and digits\<close>

text \<open>The lines of a text, as \<^verbatim>\<open>text.split('\n')\<close> gives them, and the decimal digits.
  Neither is part of the program; the statements about the generated text use them.\<close>

fun splitLines :: "string \<Rightarrow> string list" where
  "splitLines [] = [] # []"
| "splitLines (c # cs) =
    (if c = CHR 0x0A then [] # splitLines cs
     else (case splitLines cs of [] \<Rightarrow> [c] # [] | l # ls \<Rightarrow> (c # l) # ls))"

definition isDigit :: "char \<Rightarrow> bool" where
  "isDigit c \<longleftrightarrow> c \<in> set ''0123456789''"

text \<open>The number that a decimal numeral denotes: an optional minus sign, digits and, after
  a point, the digits of the fraction. It is the reading of the numerals that the
  generators print.\<close>

definition digitsValue :: "string \<Rightarrow> nat" where
  "digitsValue ds = foldl (\<lambda>acc c. acc * 10 + digitOf c) 0 ds"

definition unsignedValue :: "string \<Rightarrow> rat option" where
  "unsignedValue body =
    (let ip = takeWhile (\<lambda>c. c \<noteq> CHR ''.'') body;
         fp = drop (Suc (length ip)) body
     in if ip \<noteq> [] \<and> list_all isDigit ip \<and> list_all isDigit fp
        then Some (of_nat (digitsValue ip) + of_nat (digitsValue fp) / 10 ^ length fp)
        else None)"

definition decimalValue :: "string \<Rightarrow> rat option" where
  "decimalValue str =
    (case str of
       [] \<Rightarrow> None
     | c # r \<Rightarrow> if c = CHR ''-'' then map_option uminus (unsignedValue r) else unsignedValue str)"

text \<open>The numbers of an area and its two spans are safe integers.\<close>

definition safeArea :: "GridArea \<Rightarrow> bool" where
  "safeArea a \<longleftrightarrow>
    safeInteger (rowStart a) \<and> safeInteger (rowEnd a) \<and>
    safeInteger (colStart a) \<and> safeInteger (colEnd a) \<and>
    safeInteger (rowEnd a - rowStart a) \<and> safeInteger (colEnd a - colStart a)"

section \<open>Properties\<close>

subsection \<open>Runs\<close>

lemma run_append: "run (es @ es') = foldl step (run es) es'"
  by (simp add: run_def)

lemma run_snoc: "run (es @ [e]) = step (run es) e"
  by (simp add: run_def)

lemma gestureConsistent_step: "gestureConsistent s \<Longrightarrow> gestureConsistent (step s e)"
  by (cases e)
    (auto simp: gestureConsistent_def handleMouseDown_def handleMouseEnter_def
      handleMouseUp_def onChangeColumns_def onChangeRows_def onChangeColumnGap_def
      onChangeRowGap_def resetGridAreas_def onChangeSyntax_def
      split: bool.splits option.splits if_splits)

lemma gestureConsistent_run: "gestureConsistent (run es)"
proof (induction es rule: rev_induct)
  case Nil
  show ?case by (simp add: run_def init_state_def gestureConsistent_def)
next
  case (snoc e es)
  then show ?case by (simp add: run_snoc gestureConsistent_step)
qed

lemma handleMouseUp_idle:
  assumes "gestureConsistent s" and "\<not> isDragging s"
  shows "handleMouseUp now s = s"
  using assms by (simp add: handleMouseUp_def gestureConsistent_def)

subsection \<open>Release\<close>

lemma handleMouseUp_active:
  assumes "isDragging s" "startCell s = Some sc" "currentCell s = Some cc"
  shows "gridAreas (handleMouseUp now s) =
    gridAreas s @
    [\<lparr>id' = ''area-'' @ numToString now,
      rowStart = min (row sc) (row cc),
      rowEnd = max (row sc) (row cc) + 1,
      colStart = min (col sc) (col cc),
      colEnd = max (col sc) (col cc) + 1,
      color = AREA_COLORS ! (length (gridAreas s) mod length AREA_COLORS)\<rparr>]"
  using assms by (simp add: handleMouseUp_def)

lemma handleMouseUp_inactive:
  "\<not> (isDragging s \<and> startCell s \<noteq> None \<and> currentCell s \<noteq> None) \<Longrightarrow>
    gridAreas (handleMouseUp now s) = gridAreas s"
  by (auto simp: handleMouseUp_def split: bool.splits option.splits)

lemma handleMouseUp_clears:
  "isDragging (handleMouseUp now s) = False"
  "startCell (handleMouseUp now s) = None"
  "currentCell (handleMouseUp now s) = None"
  by (simp_all add: handleMouseUp_def)

lemma handleMouseUp_gridConfig: "gridConfig (handleMouseUp now s) = gridConfig s"
  by (simp add: handleMouseUp_def split: bool.splits option.splits)

text \<open>
  C2. During an active gesture with start cell \<open>(sr, sc)\<close> and current cell \<open>(cr, cc)\<close>, the
  release handler appends exactly one area to the registry, with
  \<open>rowStart = min sr cr\<close>, \<open>rowEnd = max sr cr + 1\<close>, \<open>colStart = min sc cc\<close> and
  \<open>colEnd = max sc cc + 1\<close>; the same area is appended when start and current cell are
  exchanged, so the rectangle does not depend on the direction of the drag.
\<close>

theorem commit_normalized_rectangle:
  assumes "isDragging s"
    and "startCell s = Some \<lparr>row = sr, col = sc\<rparr>"
    and "currentCell s = Some \<lparr>row = cr, col = cc\<rparr>"
  shows "gridAreas (handleMouseUp now s) =
      gridAreas s @
      [\<lparr>id' = ''area-'' @ numToString now,
        rowStart = min sr cr, rowEnd = max sr cr + 1,
        colStart = min sc cc, colEnd = max sc cc + 1,
        color = AREA_COLORS ! (length (gridAreas s) mod length AREA_COLORS)\<rparr>] \<and>
    gridAreas (handleMouseUp now (s\<lparr>startCell := currentCell s, currentCell := startCell s\<rparr>)) =
      gridAreas (handleMouseUp now s)"
  using assms by (simp add: handleMouseUp_def min.commute max.commute)

text \<open>A drag upwards: pressed on (row 3, column 1), moved to (row 1, column 1), released.\<close>

theorem commit_normalized_rectangle_witness:
  "isDragging (handleMouseEnter 1 1 (handleMouseDown 3 1 init_state)) \<and>
   startCell (handleMouseEnter 1 1 (handleMouseDown 3 1 init_state)) = Some \<lparr>row = 3, col = 1\<rparr> \<and>
   currentCell (handleMouseEnter 1 1 (handleMouseDown 3 1 init_state)) = Some \<lparr>row = 1, col = 1\<rparr> \<and>
   gridAreas (handleMouseUp 7 (handleMouseEnter 1 1 (handleMouseDown 3 1 init_state))) =
     [\<lparr>id' = ''area-7'', rowStart = 1, rowEnd = 4, colStart = 1, colEnd = 2,
       color = ''bg-gradient-to-br from-blue-500 to-blue-600''\<rparr>]"
  using commit_normalized_rectangle
    [of "handleMouseEnter 1 1 (handleMouseDown 3 1 init_state)" 3 1 1 1 7]
  by (simp add: handleMouseEnter_def handleMouseDown_def init_state_def AREA_COLORS_def
      numToString_def natToString.simps)

text \<open>
  C8. After the release handler the gesture state is cleared (not dragging, no start cell,
  no current cell), whether or not an area was committed; when no gesture is active the
  handler leaves the registry and the configuration as they are, and a second release
  changes nothing more. In a state the page can reach, a release with no active gesture
  changes nothing at all.
\<close>

theorem release_clears_gesture:
  "isDragging (handleMouseUp now s) = False \<and>
   startCell (handleMouseUp now s) = None \<and>
   currentCell (handleMouseUp now s) = None \<and>
   (\<not> isDragging s \<longrightarrow>
      gridAreas (handleMouseUp now s) = gridAreas s \<and>
      gridConfig (handleMouseUp now s) = gridConfig s) \<and>
   handleMouseUp now' (handleMouseUp now s) = handleMouseUp now s \<and>
   (\<not> isDragging (run es) \<longrightarrow> handleMouseUp now (run es) = run es)"
  using handleMouseUp_idle [OF gestureConsistent_run, of es now]
  by (simp add: handleMouseUp_def split: bool.splits option.splits)

theorem release_clears_gesture_witness:
  "\<not> isDragging init_state \<and>
   isDragging (handleMouseUp 7 init_state) = False \<and>
   startCell (handleMouseUp 7 init_state) = None \<and>
   currentCell (handleMouseUp 7 init_state) = None \<and>
   gridAreas (handleMouseUp 7 init_state) = [] \<and>
   handleMouseUp 8 (handleMouseUp 7 init_state) = handleMouseUp 7 init_state"
  using release_clears_gesture [of 7 init_state 8 "[]"]
  by (simp add: init_state_def)

subsection \<open>Preview\<close>

text \<open>
  C10. During an active gesture, a cell is shown as previewed exactly when the area that
  a release would commit from the same start and current cell (the last area of the
  registry after the release) covers it under its half-open bounds.
\<close>

theorem preview_is_committed_rectangle:
  assumes "isDragging s" and "startCell s = Some sc" and "currentCell s = Some cc"
  shows "isInSelection r c s \<longleftrightarrow> covers (last (gridAreas (handleMouseUp now s))) r c"
  using assms by (auto simp: isInSelection_def covers_def handleMouseUp_def)

theorem preview_is_committed_rectangle_witness:
  "isDragging (handleMouseEnter 1 2 (handleMouseDown 3 1 init_state)) \<and>
   startCell (handleMouseEnter 1 2 (handleMouseDown 3 1 init_state)) = Some \<lparr>row = 3, col = 1\<rparr> \<and>
   currentCell (handleMouseEnter 1 2 (handleMouseDown 3 1 init_state)) = Some \<lparr>row = 1, col = 2\<rparr> \<and>
   isInSelection 3 2 (handleMouseEnter 1 2 (handleMouseDown 3 1 init_state)) \<and>
   covers (last (gridAreas (handleMouseUp 7
     (handleMouseEnter 1 2 (handleMouseDown 3 1 init_state))))) 3 2"
  using preview_is_committed_rectangle
    [of "handleMouseEnter 1 2 (handleMouseDown 3 1 init_state)"
      "\<lparr>row = 3, col = 1\<rparr>" "\<lparr>row = 1, col = 2\<rparr>" 3 2 7]
  by (simp add: handleMouseEnter_def handleMouseDown_def init_state_def isInSelection_def)

subsection \<open>The registry along a run\<close>

lemma length_AREA_COLORS: "length AREA_COLORS = 8"
  by (simp add: AREA_COLORS_def)

lemma length_CSS_COLORS: "length CSS_COLORS = 8"
  by (simp add: CSS_COLORS_def)

lemma gridAreas_step:
  "gridAreas (step s e) = gridAreas s \<or> gridAreas (step s e) = [] \<or>
   (\<exists>now sc cc. isDragging s \<and> startCell s = Some sc \<and> currentCell s = Some cc \<and>
     gridAreas (step s e) =
       gridAreas s @
       [\<lparr>id' = ''area-'' @ numToString now,
         rowStart = min (row sc) (row cc),
         rowEnd = max (row sc) (row cc) + 1,
         colStart = min (col sc) (col cc),
         colEnd = max (col sc) (col cc) + 1,
         color = AREA_COLORS ! (length (gridAreas s) mod length AREA_COLORS)\<rparr>])"
  by (cases e)
    (auto simp: handleMouseDown_def handleMouseEnter_def handleMouseUp_def onChangeColumns_def
      onChangeRows_def onChangeColumnGap_def onChangeRowGap_def resetGridAreas_def
      onChangeSyntax_def split: bool.splits option.splits)
lemma positionColored_step: "positionColored (gridAreas s) \<Longrightarrow> positionColored (gridAreas (step s e))"
  using gridAreas_step [of s e]
  by (auto simp: positionColored_def nth_append length_AREA_COLORS less_Suc_eq)

lemma positionColored_run: "positionColored (gridAreas (run es))"
proof (induction es rule: rev_induct)
  case Nil
  show ?case by (simp add: run_def init_state_def positionColored_def)
next
  case (snoc e es)
  then show ?case by (simp add: run_snoc positionColored_step)
qed

lemma gridAreas_drag:
  "gridAreas (foldl step s (dragEvents (sc, cc, now))) =
     gridAreas s @
       [\<lparr>id' = ''area-'' @ numToString now,
         rowStart = min (row sc) (row cc),
         rowEnd = max (row sc) (row cc) + 1,
         colStart = min (col sc) (col cc),
         colEnd = max (col sc) (col cc) + 1,
         color = AREA_COLORS ! (length (gridAreas s) mod 8)\<rparr>]"
  by (simp add: dragEvents_def handleMouseDown_def handleMouseEnter_def handleMouseUp_def
      length_AREA_COLORS)

lemma gridAreas_commits:
  "gridAreas (run (commits gs)) =
    map (\<lambda>(N, sc, cc, now).
          \<lparr>id' = ''area-'' @ numToString now,
           rowStart = min (row sc) (row cc),
           rowEnd = max (row sc) (row cc) + 1,
           colStart = min (col sc) (col cc),
           colEnd = max (col sc) (col cc) + 1,
           color = AREA_COLORS ! (N mod 8)\<rparr>)
      (enumerate 0 gs)"
proof (induction gs rule: rev_induct)
  case Nil
  show ?case by (simp add: commits_def run_def init_state_def)
next
  case (snoc g gs)
  obtain sc cc now where g: "g = (sc, cc, now)" by (cases g)
  have "run (commits (gs @ [g])) = foldl step (run (commits gs)) (dragEvents (sc, cc, now))"
    by (simp add: commits_def run_append g)
  then show ?case
    by (simp add: gridAreas_drag snoc.IH enumerate_append_eq g)
qed

text \<open>
  C5. Along every run of the page from its initial state, the area at position \<open>N\<close> of the
  registry (from 0) carries the preview palette colour at index \<open>N mod 8\<close>, so the ninth
  area has the colour of the first; and after a sequence of commits (complete gestures and
  nothing else) the registry holds one area per gesture, in order, the \<open>N\<close>-th with the
  rectangle of the \<open>N\<close>-th gesture and palette colour \<open>N mod 8\<close>.
\<close>

theorem color_cycles:
  "(\<forall>N<length (gridAreas (run es)).
      color (gridAreas (run es) ! N) = AREA_COLORS ! (N mod 8)) \<and>
   (8 < length (gridAreas (run es)) \<longrightarrow>
      color (gridAreas (run es) ! 8) = color (gridAreas (run es) ! 0)) \<and>
   gridAreas (run (commits gs)) =
     map (\<lambda>(N, sc, cc, now).
           \<lparr>id' = ''area-'' @ numToString now,
            rowStart = min (row sc) (row cc),
            rowEnd = max (row sc) (row cc) + 1,
            colStart = min (col sc) (col cc),
            colEnd = max (col sc) (col cc) + 1,
            color = AREA_COLORS ! (N mod 8)\<rparr>)
       (enumerate 0 gs)"
proof -
  have inv: "\<forall>N<length (gridAreas (run es)).
      color (gridAreas (run es) ! N) = AREA_COLORS ! (N mod 8)"
    using positionColored_run [of es] by (simp add: positionColored_def)
  have "color (gridAreas (run es) ! 8) = color (gridAreas (run es) ! 0)"
    if "8 < length (gridAreas (run es))"
  proof -
    have "color (gridAreas (run es) ! 8) = AREA_COLORS ! (8 mod 8)"
      using inv that by blast
    moreover have "color (gridAreas (run es) ! 0) = AREA_COLORS ! (0 mod 8)"
      using inv that by (metis gr_implies_not0 not_gr_zero)
    ultimately show ?thesis by simp
  qed
  with inv gridAreas_commits [of gs] show ?thesis by blast
qed

theorem color_cycles_witness:
  "8 < length (gridAreas (run (commits nine))) \<and>
   color (gridAreas (run (commits nine)) ! 8) = color (gridAreas (run (commits nine)) ! 0) \<and>
   color (gridAreas (run (commits nine)) ! 0) = ''bg-gradient-to-br from-blue-500 to-blue-600''"
proof -
  have len: "length (gridAreas (run (commits nine))) = 9"
    by code_simp
  have first: "color (gridAreas (run (commits nine)) ! 0) =
      ''bg-gradient-to-br from-blue-500 to-blue-600''"
    by code_simp
  from color_cycles [of "commits nine" "[]"] len first show ?thesis
    by simp
qed

lemma nondegenerate_step:
  assumes "\<forall>a\<in>set (gridAreas s). rowStart a < rowEnd a \<and> colStart a < colEnd a"
  shows "\<forall>a\<in>set (gridAreas (step s e)). rowStart a < rowEnd a \<and> colStart a < colEnd a"
proof -
  consider "gridAreas (step s e) = gridAreas s" | "gridAreas (step s e) = []"
    | a where "gridAreas (step s e) = gridAreas s @ [a]" "rowStart a < rowEnd a"
        "colStart a < colEnd a"
  proof -
    from gridAreas_step [of s e] show ?thesis
    proof (elim disjE exE conjE)
      fix now sc cc
      assume eq: "gridAreas (step s e) =
       gridAreas s @
       [\<lparr>id' = ''area-'' @ numToString now,
         rowStart = min (row sc) (row cc),
         rowEnd = max (row sc) (row cc) + 1,
         colStart = min (col sc) (col cc),
         colEnd = max (col sc) (col cc) + 1,
         color = AREA_COLORS ! (length (gridAreas s) mod length AREA_COLORS)\<rparr>]"
      show ?thesis
        by (rule that(3) [OF eq]) simp_all
    qed (use that in blast)+
  qed
  then show ?thesis
    using assms by cases simp_all
qed

lemma nondegenerate_run:
  "\<forall>a\<in>set (gridAreas (run es)). rowStart a < rowEnd a \<and> colStart a < colEnd a"
proof (induction es rule: rev_induct)
  case Nil
  show ?case by (simp add: run_def init_state_def)
next
  case (snoc e es)
  then show ?case unfolding run_snoc by (rule nondegenerate_step)
qed

lemma click_release:
  "gridAreas (handleMouseUp now (handleMouseDown r c s)) =
     gridAreas s @
     [\<lparr>id' = ''area-'' @ numToString now,
       rowStart = r, rowEnd = r + 1, colStart = c, colEnd = c + 1,
       color = AREA_COLORS ! (length (gridAreas s) mod length AREA_COLORS)\<rparr>]"
  by (simp add: handleMouseUp_def handleMouseDown_def)

text \<open>
  C9. Every area of the registry, along every run of the page from its initial state, has
  \<open>rowStart < rowEnd\<close> and \<open>colStart < colEnd\<close>; every event preserves this; and a press
  followed by a release without movement commits the area of the one cell pressed:
  \<open>rowEnd = rowStart + 1\<close>, \<open>colEnd = colStart + 1\<close>.
\<close>

theorem areas_never_degenerate:
  "(\<forall>a\<in>set (gridAreas (run es)). rowStart a < rowEnd a \<and> colStart a < colEnd a) \<and>
   ((\<forall>a\<in>set (gridAreas s). rowStart a < rowEnd a \<and> colStart a < colEnd a) \<longrightarrow>
    (\<forall>a\<in>set (gridAreas (step s e)). rowStart a < rowEnd a \<and> colStart a < colEnd a)) \<and>
   gridAreas (handleMouseUp now (handleMouseDown r c s)) =
     gridAreas s @
     [\<lparr>id' = ''area-'' @ numToString now,
       rowStart = r, rowEnd = r + 1, colStart = c, colEnd = c + 1,
       color = AREA_COLORS ! (length (gridAreas s) mod length AREA_COLORS)\<rparr>]"
proof (intro conjI impI)
  show "\<forall>a\<in>set (gridAreas (run es)). rowStart a < rowEnd a \<and> colStart a < colEnd a"
    by (rule nondegenerate_run)
next
  assume "\<forall>a\<in>set (gridAreas s). rowStart a < rowEnd a \<and> colStart a < colEnd a"
  then show "\<forall>a\<in>set (gridAreas (step s e)). rowStart a < rowEnd a \<and> colStart a < colEnd a"
    by (rule nondegenerate_step)
next
  show "gridAreas (handleMouseUp now (handleMouseDown r c s)) =
     gridAreas s @
     [\<lparr>id' = ''area-'' @ numToString now,
       rowStart = r, rowEnd = r + 1, colStart = c, colEnd = c + 1,
       color = AREA_COLORS ! (length (gridAreas s) mod length AREA_COLORS)\<rparr>]"
    by (rule click_release)
qed

theorem areas_never_degenerate_witness:
  "gridAreas (handleMouseUp 7 (handleMouseDown 2 3 init_state)) =
     [\<lparr>id' = ''area-7'', rowStart = 2, rowEnd = 3, colStart = 3, colEnd = 4,
       color = ''bg-gradient-to-br from-blue-500 to-blue-600''\<rparr>] \<and>
   gridAreas (run [MouseDown 2 3, MouseUp 7]) =
     gridAreas (handleMouseUp 7 (handleMouseDown 2 3 init_state)) \<and>
   rowStart (hd (gridAreas (run [MouseDown 2 3, MouseUp 7]))) <
     rowEnd (hd (gridAreas (run [MouseDown 2 3, MouseUp 7]))) \<and>
   colStart (hd (gridAreas (step (run [MouseDown 2 3, MouseUp 7]) (MouseDown 1 1)))) <
     colEnd (hd (gridAreas (step (run [MouseDown 2 3, MouseUp 7]) (MouseDown 1 1))))"
proof -
  note inst = areas_never_degenerate
    [of "[MouseDown 2 3, MouseUp 7]" init_state "MouseDown 1 1" 7 2 3]
  note inst' = areas_never_degenerate
    [of "[MouseDown 2 3, MouseUp 7]" "run [MouseDown 2 3, MouseUp 7]" "MouseDown 1 1" 7 2 3]
  have 1: "gridAreas (handleMouseUp 7 (handleMouseDown 2 3 init_state)) =
     [\<lparr>id' = ''area-7'', rowStart = 2, rowEnd = 3, colStart = 3, colEnd = 4,
       color = ''bg-gradient-to-br from-blue-500 to-blue-600''\<rparr>]"
    using inst
    by (simp add: init_state_def AREA_COLORS_def numToString_def natToString.simps)
  have 2: "gridAreas (run [MouseDown 2 3, MouseUp 7]) =
     gridAreas (handleMouseUp 7 (handleMouseDown 2 3 init_state))"
    by (simp add: run_def)
  have ne: "gridAreas (run [MouseDown 2 3, MouseUp 7]) \<noteq> []"
    unfolding 2 1 by simp
  have 3: "\<forall>a\<in>set (gridAreas (run [MouseDown 2 3, MouseUp 7])).
      rowStart a < rowEnd a \<and> colStart a < colEnd a"
    using inst' by (rule conjunct1)
  have 4: "\<forall>a\<in>set (gridAreas (step (run [MouseDown 2 3, MouseUp 7]) (MouseDown 1 1))).
      rowStart a < rowEnd a \<and> colStart a < colEnd a"
    using inst' 3 by (elim conjE impE)
  have ne': "gridAreas (step (run [MouseDown 2 3, MouseUp 7]) (MouseDown 1 1)) \<noteq> []"
    using ne by (simp add: handleMouseDown_def)
  from 3 ne have 5: "rowStart (hd (gridAreas (run [MouseDown 2 3, MouseUp 7]))) <
     rowEnd (hd (gridAreas (run [MouseDown 2 3, MouseUp 7])))"
    using hd_in_set by blast
  from 4 ne' have 6:
    "colStart (hd (gridAreas (step (run [MouseDown 2 3, MouseUp 7]) (MouseDown 1 1)))) <
     colEnd (hd (gridAreas (step (run [MouseDown 2 3, MouseUp 7]) (MouseDown 1 1))))"
    using hd_in_set by blast
  from 1 2 5 6 show ?thesis by (intro conjI)
qed

subsection \<open>Pointer leave\<close>

text \<open>
  C3, as stated, fails: the root element binds \<^verbatim>\<open>onMouseLeave\<close> to \<^verbatim>\<open>handleMouseUp\<close>,
  so a pointer leave during an active gesture commits the selected area. Pressed on (1, 1)
  and moved to (2, 2) with an empty registry, the leave puts the area of rows 1 to 2 and
  columns 1 to 2 into the registry.
\<close>

theorem pointer_leave_commits_counterexample:
  "isDragging (run [MouseDown 1 1, MouseEnter 2 2]) \<and>
   gridAreas (run [MouseDown 1 1, MouseEnter 2 2]) = [] \<and>
   gridAreas (step (run [MouseDown 1 1, MouseEnter 2 2]) (MouseLeave 7)) =
     [\<lparr>id' = ''area-7'', rowStart = 1, rowEnd = 3, colStart = 1, colEnd = 3,
       color = ''bg-gradient-to-br from-blue-500 to-blue-600''\<rparr>] \<and>
   gridAreas (step (run [MouseDown 1 1, MouseEnter 2 2]) (MouseLeave 7)) \<noteq>
     gridAreas (run [MouseDown 1 1, MouseEnter 2 2])"
  by (simp add: run_def init_state_def handleMouseDown_def handleMouseEnter_def
      handleMouseUp_def AREA_COLORS_def numToString_def natToString.simps)

text \<open>
  C3, amended. The pointer-leave handler is the release handler: it clears the gesture
  state as a release does, and it commits the selected area as a release does. The
  registry is unchanged by it exactly when no gesture is active; during an active gesture
  it grows by one area.
\<close>

theorem pointer_leave_is_release:
  "step s (MouseLeave now) = step s (MouseUp now) \<and>
   isDragging (step s (MouseLeave now)) = False \<and>
   startCell (step s (MouseLeave now)) = None \<and>
   currentCell (step s (MouseLeave now)) = None \<and>
   (gridAreas (step s (MouseLeave now)) = gridAreas s \<longleftrightarrow>
      \<not> (isDragging s \<and> startCell s \<noteq> None \<and> currentCell s \<noteq> None)) \<and>
   (isDragging s \<and> startCell s \<noteq> None \<and> currentCell s \<noteq> None \<longrightarrow>
      length (gridAreas (step s (MouseLeave now))) = length (gridAreas s) + 1)"
  by (auto simp: handleMouseUp_def split: bool.splits option.splits)

theorem pointer_leave_is_release_witness:
  "\<not> isDragging init_state \<and>
   gridAreas (step init_state (MouseLeave 7)) = gridAreas init_state \<and>
   isDragging (handleMouseDown 1 1 init_state) \<and>
   startCell (handleMouseDown 1 1 init_state) \<noteq> None \<and>
   currentCell (handleMouseDown 1 1 init_state) \<noteq> None \<and>
   length (gridAreas (step (handleMouseDown 1 1 init_state) (MouseLeave 7))) = 1"
  using pointer_leave_is_release [of init_state 7]
    pointer_leave_is_release [of "handleMouseDown 1 1 init_state" 7]
  by (simp add: init_state_def handleMouseDown_def)

subsection \<open>The generators read the configuration and the registry only\<close>

text \<open>
  C6. Both generators are functions of the configuration and the registry: on two states
  with the same configuration and the same registry, whatever the gesture state and the
  selected syntax, each generator returns the same string. (They return their text and
  nothing else: no state is written.)
\<close>

theorem generators_read_config_and_areas:
  assumes "gridConfig s = gridConfig t" and "gridAreas s = gridAreas t"
  shows "generateTailwindCode s = generateTailwindCode t \<and> generateCSSCode s = generateCSSCode t"
  using assms by (simp add: generateTailwindCode_def generateCSSCode_def)

theorem generators_read_config_and_areas_witness:
  "gridConfig init_state = gridConfig (onChangeSyntax ''css'' (handleMouseDown 1 1 init_state)) \<and>
   gridAreas init_state = gridAreas (onChangeSyntax ''css'' (handleMouseDown 1 1 init_state)) \<and>
   init_state \<noteq> onChangeSyntax ''css'' (handleMouseDown 1 1 init_state) \<and>
   generateTailwindCode init_state =
     generateTailwindCode (onChangeSyntax ''css'' (handleMouseDown 1 1 init_state)) \<and>
   generateCSSCode init_state =
     generateCSSCode (onChangeSyntax ''css'' (handleMouseDown 1 1 init_state))"
proof -
  have c: "gridConfig init_state =
      gridConfig (onChangeSyntax ''css'' (handleMouseDown 1 1 init_state))"
    and a: "gridAreas init_state =
      gridAreas (onChangeSyntax ''css'' (handleMouseDown 1 1 init_state))"
    by (simp_all add: onChangeSyntax_def handleMouseDown_def)
  have "isDragging init_state \<noteq>
      isDragging (onChangeSyntax ''css'' (handleMouseDown 1 1 init_state))"
    by (simp add: onChangeSyntax_def handleMouseDown_def init_state_def)
  then have "init_state \<noteq> onChangeSyntax ''css'' (handleMouseDown 1 1 init_state)"
    by metis
  with c a generators_read_config_and_areas [OF c a] show ?thesis by simp
qed


subsection \<open>Decimal numerals and parseInt\<close>

lemma digit_cases:
  assumes "d < (10::nat)"
  obtains "d = 0" | "d = 1" | "d = 2" | "d = 3" | "d = 4" | "d = 5" | "d = 6" | "d = 7"
    | "d = 8" | "d = 9"
proof -
  from assms have "d = 0 \<or> d = 1 \<or> d = 2 \<or> d = 3 \<or> d = 4 \<or> d = 5 \<or> d = 6 \<or> d = 7 \<or>
      d = 8 \<or> d = 9"
    by arith
  with that show thesis by blast
qed

lemma isDigit_nth: "d < 10 \<Longrightarrow> isDigit (''0123456789'' ! d)"
  by (erule digit_cases) (simp_all add: isDigit_def)

lemma digitOf_nth: "d < 10 \<Longrightarrow> digitOf (''0123456789'' ! d) = d"
  by (erule digit_cases) (simp_all add: digitOf_def)

lemma isDigit_props:
  assumes "isDigit c"
  shows "digitOf c < 10" and "\<not> isWhiteSpace c" and "c \<noteq> CHR ''-''" and "c \<noteq> CHR ''+''"
    and "c \<noteq> CHR ''x''" and "c \<noteq> CHR ''X''" and "c \<noteq> CHR 0x0A"
  using assms by (auto simp: isDigit_def digitOf_def isWhiteSpace_def)

lemma natToString_digits: "\<forall>c\<in>set (natToString n). isDigit c"
proof (induction n rule: natToString.induct)
  case (1 n)
  show ?case
  proof (cases "n < 10")
    case True
    then show ?thesis by (subst natToString.simps) (simp add: isDigit_nth)
  next
    case False
    with 1 show ?thesis by (subst natToString.simps) (simp add: isDigit_nth)
  qed
qed

lemma natToString_nonempty: "natToString n \<noteq> []"
  by (subst natToString.simps) simp

lemma natToString_value: "foldl (\<lambda>acc c. acc * 10 + digitOf c) 0 (natToString n) = n"
proof (induction n rule: natToString.induct)
  case (1 n)
  show ?case
  proof (cases "n < 10")
    case True
    then show ?thesis by (subst natToString.simps) (simp add: digitOf_nth)
  next
    case False
    with 1 show ?thesis by (subst natToString.simps) (simp add: digitOf_nth)
  qed
qed

lemma parseInt_digits:
  assumes "ds \<noteq> []" and "\<forall>c\<in>set ds. isDigit c"
  shows "parseInt ds = Some (int (foldl (\<lambda>acc c. acc * 10 + digitOf c) 0 ds))"
    and "parseInt (''-'' @ ds) = Some (- int (foldl (\<lambda>acc c. acc * 10 + digitOf c) 0 ds))"
proof -
  from assms obtain c cs where ds: "ds = c # cs" by (cases ds) auto
  with assms have c: "isDigit c" by simp
  have drop: "dropWhile isWhiteSpace ds = ds"
    using c by (simp add: ds isDigit_props)
  have sign: "stripSign ds = (1, ds)"
    using c by (simp add: ds stripSign_def isDigit_props)
  have pre: "stripPrefix ds = (10, ds)"
  proof (cases cs)
    case Nil
    then show ?thesis by (simp add: ds stripPrefix_def)
  next
    case (Cons b r)
    with assms ds have "isDigit b" by simp
    then show ?thesis by (simp add: ds Cons stripPrefix_def isDigit_props)
  qed
  have take: "takeWhile (\<lambda>c. digitOf c < 10) ds = ds"
    using assms by (simp add: takeWhile_eq_all_conv isDigit_props)
  show "parseInt ds = Some (int (foldl (\<lambda>acc c. acc * 10 + digitOf c) 0 ds))"
    using assms(1) by (simp add: parseInt_def drop sign pre take)
  have "stripSign (dropWhile isWhiteSpace (''-'' @ ds)) = (- 1, ds)"
    by (simp add: stripSign_def isWhiteSpace_def)
  then show "parseInt (''-'' @ ds) = Some (- int (foldl (\<lambda>acc c. acc * 10 + digitOf c) 0 ds))"
    using assms(1) by (simp add: parseInt_def pre take)
qed

lemma parseInt_numToString: "parseInt (numToString n) = Some n"
  using parseInt_digits [OF natToString_nonempty natToString_digits, of "nat n"]
    parseInt_digits [OF natToString_nonempty natToString_digits, of "nat (- n)"]
  by (simp add: numToString_def natToString_value)

lemma parseIntOr_numToString: "parseIntOr (numToString n) d = (if n = 0 then d else n)"
  by (simp add: parseIntOr_def parseInt_numToString)

subsection \<open>The text of the generators\<close>

lemma splitLines_nonempty: "splitLines xs \<noteq> []"
  by (induction xs) (auto split: list.splits)

lemma splitLines_line:
  "CHR 0x0A \<notin> set xs \<Longrightarrow> splitLines (xs @ CHR 0x0A # ys) = xs # splitLines ys"
  by (induction xs) auto

lemma splitLines_last: "CHR 0x0A \<notin> set xs \<Longrightarrow> splitLines xs = [xs]"
  by (induction xs) auto

lemma splitLines_join:
  assumes "\<forall>l\<in>set ls. CHR 0x0A \<notin> set l" and "ls \<noteq> []" and "CHR 0x0A \<notin> set rest"
  shows "splitLines (join newline ls @ CHR 0x0A # rest) = ls @ [rest]"
  using assms
proof (induction ls rule: induct_list012)
  case 1
  then show ?case by simp
next
  case (2 x)
  then show ?case by (simp add: splitLines_line splitLines_last del: splitLines.simps)
next
  case (3 x y zs)
  then show ?case
    using splitLines_line [of x "join newline (y # zs) @ CHR 0x0A # rest"]
    by (simp del: splitLines.simps)
qed

lemma numToString_no_newline: "CHR 0x0A \<notin> set (numToString n)"
  using natToString_digits [of "nat n"] natToString_digits [of "nat (- n)"]
  by (auto simp: numToString_def dest: isDigit_props(7))

lemma scenario_state:
  "gridAreas (run [MouseDown 1 1, MouseEnter 2 2, MouseUp 7]) =
     [\<lparr>id' = ''area-7'', rowStart = 1, rowEnd = 3, colStart = 1, colEnd = 3,
       color = ''bg-gradient-to-br from-blue-500 to-blue-600''\<rparr>]"
  "gridConfig (run [MouseDown 1 1, MouseEnter 2 2, MouseUp 7]) =
     \<lparr>columns = 4, rows = 3, columnGap = 4, rowGap = 4\<rparr>"
  by (simp_all add: run_def init_state_def handleMouseDown_def handleMouseEnter_def
      handleMouseUp_def AREA_COLORS_def numToString_def natToString.simps)

lemma map_enumerate_nth:
  "map (\<lambda>(i, a). f i a) (enumerate 0 xs) = map (\<lambda>i. f i (xs ! i)) [0..<length xs]"
  by (rule nth_equalityI) (simp_all add: nth_enumerate_eq)

lemma map_enumerate_map:
  "map (\<lambda>(i, a). f i a) (enumerate 0 (map g xs)) = map (\<lambda>(i, a). f i (g a)) (enumerate 0 xs)"
  by (rule nth_equalityI) (simp_all add: nth_enumerate_eq)

lemma isDigit_not_point: "isDigit c \<Longrightarrow> c \<noteq> CHR ''.''"
  by (auto simp: isDigit_def)

lemma natToString_all_digits: "list_all isDigit (natToString n)"
  using natToString_digits [of n] by (simp add: list_all_iff)

lemma digitsValue_natToString: "digitsValue (natToString n) = n"
  by (simp add: digitsValue_def natToString_value)

lemma natToString_hd_not_minus: "natToString n = c # cs \<Longrightarrow> c \<noteq> CHR ''-''"
  using natToString_digits [of n] by (auto dest: isDigit_props(3))

lemma unsignedValue_numeral:
  assumes "fr = [] \<or> (\<exists>fp. fr = CHR ''.'' # fp)"
    and "list_all isDigit (drop 1 fr)"
  shows "unsignedValue (natToString q @ fr) =
    Some (of_nat q + of_nat (digitsValue (drop 1 fr)) / 10 ^ length (drop 1 fr))"
proof -
  have tw: "takeWhile (\<lambda>c. c \<noteq> CHR ''.'') (natToString q @ fr) = natToString q"
    using assms(1) natToString_digits [of q]
    by (auto simp: takeWhile_append2 isDigit_not_point takeWhile_eq_all_conv)
  show ?thesis
    unfolding unsignedValue_def Let_def tw
    using assms(2) natToString_all_digits [of q] natToString_nonempty [of q]
    by (simp add: digitsValue_natToString)
qed

lemma decimalValue_unsigned:
  assumes "fr = [] \<or> (\<exists>fp. fr = CHR ''.'' # fp)"
    and "list_all isDigit (drop 1 fr)"
  shows "decimalValue (natToString q @ fr) =
    Some (of_nat q + of_nat (digitsValue (drop 1 fr)) / 10 ^ length (drop 1 fr))"
proof -
  obtain c cs where cs: "natToString q = c # cs"
    using natToString_nonempty [of q] by (cases "natToString q") auto
  then have c: "c \<noteq> CHR ''-''" by (rule natToString_hd_not_minus)
  have "decimalValue (natToString q @ fr) = unsignedValue (natToString q @ fr)"
    by (simp add: decimalValue_def cs c)
  then show ?thesis by (simp only: unsignedValue_numeral [OF assms])
qed

lemma decimalValue_signed:
  assumes "fr = [] \<or> (\<exists>fp. fr = CHR ''.'' # fp)"
    and "list_all isDigit (drop 1 fr)"
  shows "decimalValue (''-'' @ natToString q @ fr) =
    Some (- (of_nat q + of_nat (digitsValue (drop 1 fr)) / 10 ^ length (drop 1 fr)))"
  by (simp add: decimalValue_def unsignedValue_numeral [OF assms])

lemma decimalValue_numToString: "decimalValue (numToString n) = Some (of_int n)"
proof (cases "n < 0")
  case True
  with decimalValue_signed [of "[]" "nat (- n)"] show ?thesis
    by (simp add: numToString_def digitsValue_def)
next
  case False
  with decimalValue_unsigned [of "[]" "nat n"] show ?thesis
    by (simp add: numToString_def digitsValue_def)
qed

lemma quarter_fraction:
  assumes "r < (4::nat)"
  shows "['''', ''.25'', ''.5'', ''.75''] ! r = [] \<or>
      (\<exists>fp. ['''', ''.25'', ''.5'', ''.75''] ! r = CHR ''.'' # fp)"
    and "list_all isDigit (drop 1 (['''', ''.25'', ''.5'', ''.75''] ! r))"
    and "(of_nat (digitsValue (drop 1 (['''', ''.25'', ''.5'', ''.75''] ! r))) :: rat) /
      10 ^ length (drop 1 (['''', ''.25'', ''.5'', ''.75''] ! r)) = of_nat r / 4"
proof -
  from assms consider "r = 0" | "r = 1" | "r = 2" | "r = 3" by linarith
  then show "['''', ''.25'', ''.5'', ''.75''] ! r = [] \<or>
      (\<exists>fp. ['''', ''.25'', ''.5'', ''.75''] ! r = CHR ''.'' # fp)"
    by cases simp_all
  from assms consider "r = 0" | "r = 1" | "r = 2" | "r = 3" by linarith
  then show "list_all isDigit (drop 1 (['''', ''.25'', ''.5'', ''.75''] ! r))"
    by cases (simp_all add: isDigit_def)
  from assms consider "r = 0" | "r = 1" | "r = 2" | "r = 3" by linarith
  then show "(of_nat (digitsValue (drop 1 (['''', ''.25'', ''.5'', ''.75''] ! r))) :: rat) /
      10 ^ length (drop 1 (['''', ''.25'', ''.5'', ''.75''] ! r)) = of_nat r / 4"
    by cases (simp_all add: digitsValue_def digitOf_def)
qed

lemma decimalValue_quarterToString: "decimalValue (quarterToString n) = Some (of_int n / 4)"
proof -
  define m where "m = nat \<bar>n\<bar>"
  have r: "m mod 4 < 4" by simp
  have split: "(of_nat m :: rat) = 4 * of_nat (m div 4) + of_nat (m mod 4)"
    by (metis of_nat_add of_nat_mult of_nat_numeral mult_div_mod_eq)
  have "(4 * of_nat (m div 4) + of_nat (m mod 4)) / 4 =
      (of_nat (m div 4) :: rat) + of_nat (m mod 4) / 4"
    by (simp add: add_divide_distrib)
  then have quarter: "(of_nat (m div 4) :: rat) + of_nat (m mod 4) / 4 = of_nat m / 4"
    by (simp only: split [symmetric])
  have val: "(of_nat (m div 4) :: rat) +
      of_nat (digitsValue (drop 1 (['''', ''.25'', ''.5'', ''.75''] ! (m mod 4)))) /
      10 ^ length (drop 1 (['''', ''.25'', ''.5'', ''.75''] ! (m mod 4))) = of_nat m / 4"
    unfolding quarter_fraction(3) [OF r] by (rule quarter)
  show ?thesis
  proof (cases "n < 0")
    case True
    then have n: "(of_int n :: rat) / 4 = - (of_nat m / 4)" by (simp add: m_def)
    from True have qs: "quarterToString n =
        ''-'' @ natToString (m div 4) @ ['''', ''.25'', ''.5'', ''.75''] ! (m mod 4)"
      by (simp add: quarterToString_def m_def Let_def)
    show ?thesis
      by (simp only: qs n decimalValue_signed [OF quarter_fraction(1,2) [OF r]] val)
  next
    case False
    then have n: "(of_int n :: rat) / 4 = of_nat m / 4" by (simp add: m_def)
    from False have qs: "quarterToString n =
        natToString (m div 4) @ ['''', ''.25'', ''.5'', ''.75''] ! (m mod 4)"
      by (simp add: quarterToString_def m_def Let_def)
    show ?thesis
      by (simp only: qs n decimalValue_unsigned [OF quarter_fraction(1,2) [OF r]] val)
  qed
qed

text \<open>
  C1. For every state whose numbers are safe integers, the text of
  \<^verbatim>\<open>generateTailwindCode\<close> is the parent line with the class list
  \<^verbatim>\<open>grid grid-cols-{columns} grid-rows-{rows} gap-{columnGap}\<close>, then the child lines joined
  by line feeds, then the closing line; the child lines are one per area of the registry,
  in the order of the registry, each with the class list
  \<^verbatim>\<open>row-start-{rowStart} row-span-{rowEnd-rowStart} col-start-{colStart}
  col-span-{colEnd-colStart} {color} rounded-xl shadow-lg\<close>. The gap token is that of
  \<^verbatim>\<open>columnGap\<close>: it reads as the number \<^verbatim>\<open>columnGap\<close>, and the text does not change with
  \<^verbatim>\<open>rowGap\<close>; the span tokens read as end minus start. When no colour token of the
  registry holds a line feed (none of the palette does), the lines of the text are exactly
  the parent line, one line per area (one empty line when the registry is empty) and the
  closing line.
\<close>

theorem generateTailwindCode_format:
  assumes "safeInteger (columns (gridConfig s))"
    and "safeInteger (rows (gridConfig s))"
    and "safeInteger (columnGap (gridConfig s))"
    and "\<forall>a\<in>set (gridAreas s). safeArea a"
  shows
  \<open>(let parent = ''grid grid-cols-'' @ numToString (columns (gridConfig s)) @
                  '' grid-rows-'' @ numToString (rows (gridConfig s)) @
                  '' gap-'' @ numToString (columnGap (gridConfig s));
        child = (\<lambda>a. ''row-start-'' @ numToString (rowStart a) @
                      '' row-span-'' @ numToString (rowEnd a - rowStart a) @
                      '' col-start-'' @ numToString (colStart a) @
                      '' col-span-'' @ numToString (colEnd a - colStart a) @
                      '' '' @ color a @ '' rounded-xl shadow-lg'')
    in generateTailwindCode s =
         ''<div class="'' @ parent @ ''">'' @ newline @
         join newline (map (\<lambda>a. ''  <div class="'' @ child a @ ''"></div>'') (gridAreas s)) @
         newline @ ''</div>'' \<and>
       ((\<forall>a\<in>set (gridAreas s). CHR 0x0A \<notin> set (color a)) \<longrightarrow>
         splitLines (generateTailwindCode s) =
           [''<div class="'' @ parent @ ''">''] @
           (if gridAreas s = [] then ['''']
            else map (\<lambda>a. ''  <div class="'' @ child a @ ''"></div>'') (gridAreas s)) @
           [''</div>'']) \<and>
       generateTailwindCode (s\<lparr>gridConfig := (gridConfig s)\<lparr>rowGap := g\<rparr>\<rparr>) =
         generateTailwindCode s \<and>
       decimalValue (numToString (columnGap (gridConfig s))) =
         Some (of_int (columnGap (gridConfig s))) \<and>
       (\<forall>a\<in>set (gridAreas s).
          decimalValue (numToString (rowEnd a - rowStart a)) =
            Some (of_int (rowEnd a) - of_int (rowStart a)) \<and>
          decimalValue (numToString (colEnd a - colStart a)) =
            Some (of_int (colEnd a) - of_int (colStart a))))\<close>
proof -
  define parent where "parent = ''grid grid-cols-'' @ numToString (columns (gridConfig s)) @
                  '' grid-rows-'' @ numToString (rows (gridConfig s)) @
                  '' gap-'' @ numToString (columnGap (gridConfig s))"
  define child where "child = (\<lambda>a::GridArea. ''row-start-'' @ numToString (rowStart a) @
                      '' row-span-'' @ numToString (rowEnd a - rowStart a) @
                      '' col-start-'' @ numToString (colStart a) @
                      '' col-span-'' @ numToString (colEnd a - colStart a) @
                      '' '' @ color a @ '' rounded-xl shadow-lg'')"
  define items where \<open>items = map (\<lambda>a. ''  <div class="'' @ child a @ ''"></div>'') (gridAreas s)\<close>
  have eq: \<open>generateTailwindCode s =
      (''<div class="'' @ parent @ ''">'') @ newline @ join newline items @ newline @ ''</div>''\<close>
    by (simp add: generateTailwindCode_def parent_def child_def items_def)
  have p: \<open>CHR 0x0A \<notin> set (''<div class="'' @ parent @ ''">'')\<close>
    by (simp add: parent_def numToString_no_newline)
  have lines: \<open>splitLines (generateTailwindCode s) =
      [''<div class="'' @ parent @ ''">''] @ (if gridAreas s = [] then [''''] else items) @
      [''</div>'']\<close>
    if nl: "\<forall>a\<in>set (gridAreas s). CHR 0x0A \<notin> set (color a)"
  proof (cases "gridAreas s = []")
    case True
    then have "items = []" by (simp add: items_def)
    then show ?thesis
      unfolding eq using True splitLines_line [OF p]
      by (simp del: splitLines.simps add: splitLines_line [of "[]" "''</div>''", simplified] splitLines_last)
  next
    case False
    then have ne: "items \<noteq> []" by (simp add: items_def)
    have "\<forall>l\<in>set items. CHR 0x0A \<notin> set l"
      using nl by (auto simp: items_def child_def numToString_no_newline)
    from splitLines_join [OF this ne, of "''</div>''"] False show ?thesis
      unfolding eq using splitLines_line [OF p]
      by (simp del: splitLines.simps)
  qed
  have gap: "generateTailwindCode (s\<lparr>gridConfig := (gridConfig s)\<lparr>rowGap := g\<rparr>\<rparr>) =
      generateTailwindCode s"
    by (simp add: generateTailwindCode_def)
  from eq lines gap show ?thesis
    unfolding Let_def parent_def [symmetric] child_def [symmetric] items_def [symmetric]
    by (simp del: splitLines.simps add: decimalValue_numToString)
qed

text \<open>The configuration of four columns, three rows and gaps 4 with the one area of rows 1
  to 2 and columns 1 to 2.\<close>

theorem generateTailwindCode_format_witness:
  \<open>gridConfig (run [MouseDown 1 1, MouseEnter 2 2, MouseUp 7]) =
     \<lparr>columns = 4, rows = 3, columnGap = 4, rowGap = 4\<rparr> \<and>
   gridAreas (run [MouseDown 1 1, MouseEnter 2 2, MouseUp 7]) =
     [\<lparr>id' = ''area-7'', rowStart = 1, rowEnd = 3, colStart = 1, colEnd = 3,
       color = ''bg-gradient-to-br from-blue-500 to-blue-600''\<rparr>] \<and>
   safeInteger (columns (gridConfig (run [MouseDown 1 1, MouseEnter 2 2, MouseUp 7]))) \<and>
   safeInteger (rows (gridConfig (run [MouseDown 1 1, MouseEnter 2 2, MouseUp 7]))) \<and>
   safeInteger (columnGap (gridConfig (run [MouseDown 1 1, MouseEnter 2 2, MouseUp 7]))) \<and>
   list_all safeArea (gridAreas (run [MouseDown 1 1, MouseEnter 2 2, MouseUp 7])) \<and>
   splitLines (generateTailwindCode (run [MouseDown 1 1, MouseEnter 2 2, MouseUp 7])) =
     [''<div class="grid grid-cols-4 grid-rows-3 gap-4">'',
      ''  <div class="row-start-1 row-span-2 col-start-1 col-span-2 bg-gradient-to-br from-blue-500 to-blue-600 rounded-xl shadow-lg"></div>'',
      ''</div>'']\<close>
proof -
  have h1: "safeInteger (columns (gridConfig (run [MouseDown 1 1, MouseEnter 2 2, MouseUp 7])))"
    and h2: "safeInteger (rows (gridConfig (run [MouseDown 1 1, MouseEnter 2 2, MouseUp 7])))"
    and h3: "safeInteger (columnGap (gridConfig (run [MouseDown 1 1, MouseEnter 2 2, MouseUp 7])))"
    unfolding scenario_state by (simp_all add: safeInteger_def)
  have h4: "\<forall>a\<in>set (gridAreas (run [MouseDown 1 1, MouseEnter 2 2, MouseUp 7])). safeArea a"
    unfolding scenario_state by (simp add: safeArea_def safeInteger_def)
  have nl: "\<forall>a\<in>set (gridAreas (run [MouseDown 1 1, MouseEnter 2 2, MouseUp 7])).
      CHR 0x0A \<notin> set (color a)"
    unfolding scenario_state by simp
  note inst = generateTailwindCode_format
    [OF h1 h2 h3 h4, unfolded Let_def, THEN conjunct2, THEN conjunct1, THEN mp, OF nl]
  have \<open>splitLines (generateTailwindCode (run [MouseDown 1 1, MouseEnter 2 2, MouseUp 7])) =
     [''<div class="grid grid-cols-4 grid-rows-3 gap-4">'',
      ''  <div class="row-start-1 row-span-2 col-start-1 col-span-2 bg-gradient-to-br from-blue-500 to-blue-600 rounded-xl shadow-lg"></div>'',
      ''</div>'']\<close>
    unfolding inst scenario_state
    by (simp add: numToString_def natToString.simps)
  with scenario_state h1 h2 h3 h4 show ?thesis by (simp only: list_all_iff simp_thms)
qed

text \<open>
  C4. For every state whose numbers are safe integers and whose \<^verbatim>\<open>rowGap\<close> is below
  \<open>2 ^ 51\<close> in magnitude, the style sheet of \<^verbatim>\<open>generateCSSCode\<close> is the container rule,
  whose gap is the decimal numeral of \<^verbatim>\<open>rowGap * 0.25\<close> followed by \<^verbatim>\<open>rem\<close>, followed by one
  rule per area of the registry: the rule at index \<open>i\<close> (from 0) is named
  \<^verbatim>\<open>.grid-area-{i+1}\<close>, sets \<^verbatim>\<open>grid-row\<close> and \<^verbatim>\<open>grid-column\<close> to the line ranges of the area
  at position \<open>i\<close>, and takes its background from \<^verbatim>\<open>CSS_COLORS\<close> at index \<open>i mod 8\<close>. The
  markup has one element per area, named the same way. The output does not change with the
  colour tokens stored in the areas, nor with \<^verbatim>\<open>columnGap\<close>.
\<close>

theorem generateCSSCode_format:
  assumes "safeInteger (columns (gridConfig s))"
    and "safeInteger (rows (gridConfig s))"
    and "quarterRange (rowGap (gridConfig s))"
    and "\<forall>a\<in>set (gridAreas s). safeArea a"
  shows
  \<open>fst (generateCSSCode s) =
     ''.grid-container {'' @ newline @
     ''  display: grid;'' @ newline @
     ''  grid-template-columns: repeat('' @ numToString (columns (gridConfig s)) @ '', 1fr);'' @
       newline @
     ''  grid-template-rows: repeat('' @ numToString (rows (gridConfig s)) @ '', 1fr);'' @
       newline @
     ''  gap: '' @ quarterToString (rowGap (gridConfig s)) @ ''rem;'' @ newline @
     ''}'' @ newline @
     join newline
       (map (\<lambda>i. newline @ ''.grid-area-'' @ natToString (i + 1) @ '' {'' @ newline @
                 ''  grid-row: '' @ numToString (rowStart (gridAreas s ! i)) @ '' / '' @
                   numToString (rowEnd (gridAreas s ! i)) @ '';'' @ newline @
                 ''  grid-column: '' @ numToString (colStart (gridAreas s ! i)) @ '' / '' @
                   numToString (colEnd (gridAreas s ! i)) @ '';'' @ newline @
                 ''  background: '' @ CSS_COLORS ! (i mod 8) @ '';'' @ newline @
                 ''  border-radius: 0.75rem;'' @ newline @
                 ''  box-shadow: 0 10px 15px -3px rgb(0 0 0 / 0.1);'' @ newline @
                 ''}'')
          [0..<length (gridAreas s)]) \<and>
   decimalValue (quarterToString (rowGap (gridConfig s))) =
     Some (of_int (rowGap (gridConfig s)) * 0.25) \<and>
   snd (generateCSSCode s) =
     ''<div class="grid-container">'' @ newline @
     join newline
       (map (\<lambda>i. ''  <div class="grid-area-'' @ natToString (i + 1) @ ''"></div>'')
          [0..<length (gridAreas s)]) @
     newline @ ''</div>'' \<and>
   generateCSSCode (s\<lparr>gridAreas := map (\<lambda>a. a\<lparr>color := f a\<rparr>) (gridAreas s)\<rparr>) =
     generateCSSCode s \<and>
   generateCSSCode (s\<lparr>gridConfig := (gridConfig s)\<lparr>columnGap := g\<rparr>\<rparr>) = generateCSSCode s\<close>
proof (intro conjI)
  show \<open>fst (generateCSSCode s) =
     ''.grid-container {'' @ newline @
     ''  display: grid;'' @ newline @
     ''  grid-template-columns: repeat('' @ numToString (columns (gridConfig s)) @ '', 1fr);'' @
       newline @
     ''  grid-template-rows: repeat('' @ numToString (rows (gridConfig s)) @ '', 1fr);'' @
       newline @
     ''  gap: '' @ quarterToString (rowGap (gridConfig s)) @ ''rem;'' @ newline @
     ''}'' @ newline @
     join newline
       (map (\<lambda>i. newline @ ''.grid-area-'' @ natToString (i + 1) @ '' {'' @ newline @
                 ''  grid-row: '' @ numToString (rowStart (gridAreas s ! i)) @ '' / '' @
                   numToString (rowEnd (gridAreas s ! i)) @ '';'' @ newline @
                 ''  grid-column: '' @ numToString (colStart (gridAreas s ! i)) @ '' / '' @
                   numToString (colEnd (gridAreas s ! i)) @ '';'' @ newline @
                 ''  background: '' @ CSS_COLORS ! (i mod 8) @ '';'' @ newline @
                 ''  border-radius: 0.75rem;'' @ newline @
                 ''  box-shadow: 0 10px 15px -3px rgb(0 0 0 / 0.1);'' @ newline @
                 ''}'')
          [0..<length (gridAreas s)])\<close>
    by (simp add: generateCSSCode_def map_enumerate_nth length_CSS_COLORS)
next
  show "decimalValue (quarterToString (rowGap (gridConfig s))) =
     Some (of_int (rowGap (gridConfig s)) * 0.25)"
    by (simp add: decimalValue_quarterToString)
next
  show \<open>snd (generateCSSCode s) =
     ''<div class="grid-container">'' @ newline @
     join newline
       (map (\<lambda>i. ''  <div class="grid-area-'' @ natToString (i + 1) @ ''"></div>'')
          [0..<length (gridAreas s)]) @
     newline @ ''</div>''\<close>
    by (simp add: generateCSSCode_def map_enumerate_nth)
next
  show "generateCSSCode (s\<lparr>gridAreas := map (\<lambda>a. a\<lparr>color := f a\<rparr>) (gridAreas s)\<rparr>) =
     generateCSSCode s"
    by (simp add: generateCSSCode_def map_enumerate_map)
next
  show "generateCSSCode (s\<lparr>gridConfig := (gridConfig s)\<lparr>columnGap := g\<rparr>\<rparr>) = generateCSSCode s"
    by (simp add: generateCSSCode_def)
qed

text \<open>The same state; and the gap of three quarters, for a row gap of 3.\<close>

theorem generateCSSCode_format_witness:
  \<open>safeInteger (columns (gridConfig (run [MouseDown 1 1, MouseEnter 2 2, MouseUp 7]))) \<and>
   safeInteger (rows (gridConfig (run [MouseDown 1 1, MouseEnter 2 2, MouseUp 7]))) \<and>
   quarterRange (rowGap (gridConfig (run [MouseDown 1 1, MouseEnter 2 2, MouseUp 7]))) \<and>
   list_all safeArea (gridAreas (run [MouseDown 1 1, MouseEnter 2 2, MouseUp 7])) \<and>
   splitLines (fst (generateCSSCode (run [MouseDown 1 1, MouseEnter 2 2, MouseUp 7]))) =
     [''.grid-container {'',
      ''  display: grid;'',
      ''  grid-template-columns: repeat(4, 1fr);'',
      ''  grid-template-rows: repeat(3, 1fr);'',
      ''  gap: 1rem;'',
      ''}'',
      '''',
      ''.grid-area-1 {'',
      ''  grid-row: 1 / 3;'',
      ''  grid-column: 1 / 3;'',
      ''  background: linear-gradient(135deg, #3B82F6, #2563EB);'',
      ''  border-radius: 0.75rem;'',
      ''  box-shadow: 0 10px 15px -3px rgb(0 0 0 / 0.1);'',
      ''}''] \<and>
   splitLines (snd (generateCSSCode (run [MouseDown 1 1, MouseEnter 2 2, MouseUp 7]))) =
     [''<div class="grid-container">'', ''  <div class="grid-area-1"></div>'', ''</div>''] \<and>
   quarterRange (rowGap (gridConfig (onChangeRowGap ''3'' init_state))) \<and>
   splitLines (fst (generateCSSCode (onChangeRowGap ''3'' init_state))) =
     [''.grid-container {'',
      ''  display: grid;'',
      ''  grid-template-columns: repeat(4, 1fr);'',
      ''  grid-template-rows: repeat(3, 1fr);'',
      ''  gap: 0.75rem;'',
      ''}'',
      '''']\<close>
proof -
  have h1: "safeInteger (columns (gridConfig (run [MouseDown 1 1, MouseEnter 2 2, MouseUp 7])))"
    and h2: "safeInteger (rows (gridConfig (run [MouseDown 1 1, MouseEnter 2 2, MouseUp 7])))"
    and h3: "quarterRange (rowGap (gridConfig (run [MouseDown 1 1, MouseEnter 2 2, MouseUp 7])))"
    unfolding scenario_state by (simp_all add: safeInteger_def quarterRange_def)
  have h4: "\<forall>a\<in>set (gridAreas (run [MouseDown 1 1, MouseEnter 2 2, MouseUp 7])). safeArea a"
    unfolding scenario_state by (simp add: safeArea_def safeInteger_def)
  note inst = generateCSSCode_format [OF h1 h2 h3 h4]
  have css: \<open>splitLines (fst (generateCSSCode (run [MouseDown 1 1, MouseEnter 2 2, MouseUp 7]))) =
     [''.grid-container {'',
      ''  display: grid;'',
      ''  grid-template-columns: repeat(4, 1fr);'',
      ''  grid-template-rows: repeat(3, 1fr);'',
      ''  gap: 1rem;'',
      ''}'',
      '''',
      ''.grid-area-1 {'',
      ''  grid-row: 1 / 3;'',
      ''  grid-column: 1 / 3;'',
      ''  background: linear-gradient(135deg, #3B82F6, #2563EB);'',
      ''  border-radius: 0.75rem;'',
      ''  box-shadow: 0 10px 15px -3px rgb(0 0 0 / 0.1);'',
      ''}'']\<close>
    unfolding inst [THEN conjunct1] scenario_state
    by (simp add: numToString_def natToString.simps quarterToString_def CSS_COLORS_def)
  have html: \<open>splitLines (snd (generateCSSCode (run [MouseDown 1 1, MouseEnter 2 2, MouseUp 7]))) =
     [''<div class="grid-container">'', ''  <div class="grid-area-1"></div>'', ''</div>'']\<close>
    unfolding inst [THEN conjunct2, THEN conjunct2, THEN conjunct1] scenario_state
    by (simp add: natToString.simps)
  have cfg: "gridConfig (onChangeRowGap ''3'' init_state) =
      \<lparr>columns = 4, rows = 3, columnGap = 4, rowGap = 3\<rparr>"
    and areas: "gridAreas (onChangeRowGap ''3'' init_state) = []"
    by (simp_all add: onChangeRowGap_def init_state_def parseIntOr_def parseInt_def
        stripSign_def stripPrefix_def isWhiteSpace_def digitOf_def)
  have g1: "safeInteger (columns (gridConfig (onChangeRowGap ''3'' init_state)))"
    and g2: "safeInteger (rows (gridConfig (onChangeRowGap ''3'' init_state)))"
    and g3: "quarterRange (rowGap (gridConfig (onChangeRowGap ''3'' init_state)))"
    unfolding cfg by (simp_all add: safeInteger_def quarterRange_def)
  have g4: "\<forall>a\<in>set (gridAreas (onChangeRowGap ''3'' init_state)). safeArea a"
    unfolding areas by simp
  have css3: \<open>splitLines (fst (generateCSSCode (onChangeRowGap ''3'' init_state))) =
     [''.grid-container {'',
      ''  display: grid;'',
      ''  grid-template-columns: repeat(4, 1fr);'',
      ''  grid-template-rows: repeat(3, 1fr);'',
      ''  gap: 0.75rem;'',
      ''}'',
      '''']\<close>
    unfolding generateCSSCode_format [OF g1 g2 g3 g4, THEN conjunct1] cfg areas
    by (simp add: numToString_def natToString.simps quarterToString_def)
  from h1 h2 h3 h4 css html g3 css3 show ?thesis
    by (simp only: list_all_iff simp_thms)
qed

subsection \<open>The numeric fields\<close>

text \<open>
  C7, as stated, fails: the handlers apply no range check. The text \<^verbatim>\<open>13\<close> in the columns
  field stores 13, the text \<^verbatim>\<open>-2\<close> in the rows field stores \<open>-2\<close>, and the text \<^verbatim>\<open>40\<close> in
  the row gap field stores 40, none of them the field's default and none within the range
  of its field.
\<close>

theorem field_out_of_range_counterexample:
  "columns (gridConfig (onChangeColumns ''13'' init_state)) = 13 \<and>
   \<not> columns (gridConfig (onChangeColumns ''13'' init_state)) \<le> 12 \<and>
   rows (gridConfig (onChangeRows ''-2'' init_state)) = - 2 \<and>
   \<not> 1 \<le> rows (gridConfig (onChangeRows ''-2'' init_state)) \<and>
   rowGap (gridConfig (onChangeRowGap ''40'' init_state)) = 40 \<and>
   \<not> rowGap (gridConfig (onChangeRowGap ''40'' init_state)) \<le> 16"
  by (simp add: onChangeColumns_def onChangeRows_def onChangeRowGap_def parseIntOr_def
      parseInt_def stripSign_def stripPrefix_def isWhiteSpace_def digitOf_def)

text \<open>
  C7, amended. For every text of a numeric field: when \<^verbatim>\<open>parseInt\<close> reads no number in it
  (\<^verbatim>\<open>NaN\<close>: empty or non-numeric text) or reads zero, the field's default is stored, 1 for
  columns and rows and 0 for the two gaps; so the stored value is never undefined, and
  columns and rows are never 0. When \<^verbatim>\<open>parseInt\<close> reads a safe integer other than zero, that
  integer is stored, with no check against the range of the field; in particular the
  decimal numeral of a safe integer \<open>n\<close> other than zero stores \<open>n\<close>.
\<close>

theorem field_input_coercion:
  "(parseInt v = None \<or> parseInt v = Some 0 \<longrightarrow>
      columns (gridConfig (onChangeColumns v s)) = 1 \<and>
      rows (gridConfig (onChangeRows v s)) = 1 \<and>
      columnGap (gridConfig (onChangeColumnGap v s)) = 0 \<and>
      rowGap (gridConfig (onChangeRowGap v s)) = 0) \<and>
   (parseInt v = Some n \<and> n \<noteq> 0 \<and> safeInteger n \<longrightarrow>
      columns (gridConfig (onChangeColumns v s)) = n \<and>
      rows (gridConfig (onChangeRows v s)) = n \<and>
      columnGap (gridConfig (onChangeColumnGap v s)) = n \<and>
      rowGap (gridConfig (onChangeRowGap v s)) = n) \<and>
   columns (gridConfig (onChangeColumns v s)) \<noteq> 0 \<and>
   rows (gridConfig (onChangeRows v s)) \<noteq> 0 \<and>
   (safeInteger m \<and> m \<noteq> 0 \<longrightarrow>
      parseInt (numToString m) = Some m \<and>
      columns (gridConfig (onChangeColumns (numToString m) s)) = m \<and>
      rows (gridConfig (onChangeRows (numToString m) s)) = m \<and>
      columnGap (gridConfig (onChangeColumnGap (numToString m) s)) = m \<and>
      rowGap (gridConfig (onChangeRowGap (numToString m) s)) = m)"
  by (auto simp: onChangeColumns_def onChangeRows_def onChangeColumnGap_def onChangeRowGap_def
      parseIntOr_def parseInt_numToString split: option.splits)

theorem field_input_coercion_witness:
  "parseInt '''' = None \<and>
   columns (gridConfig (onChangeColumns '''' init_state)) = 1 \<and>
   rows (gridConfig (onChangeRows '''' init_state)) = 1 \<and>
   columnGap (gridConfig (onChangeColumnGap '''' init_state)) = 0 \<and>
   rowGap (gridConfig (onChangeRowGap '''' init_state)) = 0 \<and>
   parseInt ''0'' = Some 0 \<and>
   columns (gridConfig (onChangeColumns ''0'' init_state)) = 1 \<and>
   parseInt ''7'' = Some 7 \<and> safeInteger 7 \<and>
   rowGap (gridConfig (onChangeRowGap ''7'' init_state)) = 7 \<and>
   safeInteger 12 \<and> numToString 12 = ''12'' \<and>
   rows (gridConfig (onChangeRows ''12'' init_state)) = 12"
proof -
  have e: "parseInt '''' = None" and z: "parseInt ''0'' = Some 0"
    and p: "parseInt ''7'' = Some 7"
    by (simp_all add: parseInt_def stripSign_def stripPrefix_def isWhiteSpace_def digitOf_def)
  have s7: "safeInteger 7" and s12: "safeInteger 12"
    by (simp_all add: safeInteger_def)
  have t: "numToString 12 = ''12''"
    by (simp add: numToString_def natToString.simps)
  from field_input_coercion [of "''''" init_state 7 12] e
  have d: "columns (gridConfig (onChangeColumns '''' init_state)) = 1 \<and>
      rows (gridConfig (onChangeRows '''' init_state)) = 1 \<and>
      columnGap (gridConfig (onChangeColumnGap '''' init_state)) = 0 \<and>
      rowGap (gridConfig (onChangeRowGap '''' init_state)) = 0"
    by (simp only: simp_thms)
  from field_input_coercion [of "''0''" init_state 7 12] z
  have c0: "columns (gridConfig (onChangeColumns ''0'' init_state)) = 1"
    by (simp only: simp_thms)
  from field_input_coercion [of "''7''" init_state 7 12] p s7
  have g7: "rowGap (gridConfig (onChangeRowGap ''7'' init_state)) = 7"
    by simp
  from field_input_coercion [of "''''" init_state 7 12] s12
  have r12: "rows (gridConfig (onChangeRows ''12'' init_state)) = 12"
    unfolding t by simp
  from e d z c0 p s7 g7 s12 t r12 show ?thesis
    by (simp only: simp_thms)
qed

end
